theory Spec2Isabelle
  imports Main
begin

section \<open>RTF (Reader Text File): the import, search and export engine of rtf.py\<close>

text \<open>
  The program keeps delimited text files in one SQLite database and lets the user search
  one column of one table. Three libraries carry the work: pandas parses the file and
  writes and reads the frames, SQLite stores the tables and runs the statements, tkinter
  asks for paths and shows dialogs. The functions of rtf.py are embedded below as they are
  written; of the libraries, the part each statement of rtf.py exercises is modelled:

  \<^item> a Python \<open>str\<close> is a \<open>string\<close>, one \<open>char\<close> standing for one character;
  \<^item> a cell of a frame or of a table is \<open>None\<close> for SQL NULL (pandas NaN), or \<open>Some\<close> of the
    text form of the stored value, which is the operand SQLite hands to \<open>LIKE\<close>;
  \<^item> \<open>search\<close> builds the text of its statement as rtf.py does, table and column written
    into it as they come, and SQLite reads that text: the tokenizer (white space, block
    comments, words, integers, \<open>?\<close>, \<open>*\<close>) and the statements
    \<open>SELECT * FROM t WHERE p OR ... OR p [LIMIT n]\<close> are modelled, each \<open>p\<close> being
    \<open>c LIKE ?\<close>, \<open>c IS NULL\<close> or an integer, with names resolved without regard to ASCII
    case. A text outside this fragment is answered with \<open>DatabaseError\<close>, also where
    SQLite would run it (quoted names, other operators, the hidden \<open>rowid\<close>, \<open>true\<close> and
    \<open>false\<close>, keywords its parser lets stand as names). The theorems about \<open>search\<close> that
    speak of all tables and columns therefore name their domain: table and column are
    plain names, \<open>sql_name\<close>, on which SQLite and the fragment agree;
  \<^item> \<open>get_columns\<close> writes the table into a \<open>PRAGMA\<close>; it is modelled for plain names and
    answered with \<open>DatabaseError\<close> for any other text.
\<close>

subsection \<open>Python string operations\<close>

definition startswith :: "string \<Rightarrow> string \<Rightarrow> bool" where
  \<comment> \<open>\<open>s.startswith(pre)\<close>\<close>
  "startswith s pre = (take (length pre) s = pre)"

definition endswith :: "string \<Rightarrow> string \<Rightarrow> bool" where
  \<comment> \<open>\<open>s.endswith(suf)\<close>\<close>
  "endswith s suf = (length suf \<le> length s \<and> drop (length s - length suf) s = suf)"


definition replace_chr :: "char \<Rightarrow> char \<Rightarrow> string \<Rightarrow> string" where
  \<comment> \<open>\<open>s.replace(old, new)\<close> for one-character \<open>old\<close> and \<open>new\<close>\<close>
  "replace_chr old new s = map (\<lambda>c. if c = old then new else c) s"

definition ascii_upper_letters :: string where
  "ascii_upper_letters = ''ABCDEFGHIJKLMNOPQRSTUVWXYZ''"

definition ascii_lower_letters :: string where
  "ascii_lower_letters = ''abcdefghijklmnopqrstuvwxyz''"

definition ascii_digits :: string where
  "ascii_digits = ''0123456789''"

definition ascii_lower :: "char \<Rightarrow> char" where
  \<comment> \<open>SQLite folds the 26 ASCII capitals only, in names and in \<open>LIKE\<close>\<close>
  "ascii_lower c =
     (case map_of (zip ascii_upper_letters ascii_lower_letters) c of
        Some l \<Rightarrow> l
      | None \<Rightarrow> c)"

definition fold_case :: "string \<Rightarrow> string" where
  "fold_case s = map ascii_lower s"

subsection \<open>SQLite: names, \<open>LIKE\<close>, tables\<close>

definition id_start :: "char \<Rightarrow> bool" where
  \<comment> \<open>a character that can begin a bare identifier: a letter, the underscore, or a
      character outside ASCII\<close>
  "id_start c =
     (c \<in> set ascii_upper_letters \<or> c \<in> set ascii_lower_letters \<or> c = CHR ''_''
      \<or> 128 \<le> (of_char c :: nat))"

definition id_char :: "char \<Rightarrow> bool" where
  \<comment> \<open>a character that can continue it: also a digit or the dollar sign\<close>
  "id_char c = (id_start c \<or> c \<in> set ascii_digits \<or> c = CHR ''$'')"

definition sqlite_keywords :: "string list" where
  \<comment> \<open>the keyword list of SQLite's documentation, in lower case\<close>
  "sqlite_keywords =
    [''abort'', ''action'', ''add'', ''after'', ''all'', ''alter'', ''always'', ''analyze'',
     ''and'', ''as'', ''asc'', ''attach'', ''autoincrement'', ''before'', ''begin'',
     ''between'', ''by'', ''cascade'', ''case'', ''cast'', ''check'', ''collate'', ''column'',
     ''commit'', ''conflict'', ''constraint'', ''create'', ''cross'', ''current'',
     ''current_date'', ''current_time'', ''current_timestamp'', ''database'', ''default'',
     ''deferrable'', ''deferred'', ''delete'', ''desc'', ''detach'', ''distinct'', ''do'',
     ''drop'', ''each'', ''else'', ''end'', ''escape'', ''except'', ''exclude'', ''exclusive'',
     ''exists'', ''explain'', ''fail'', ''filter'', ''first'', ''following'', ''for'',
     ''foreign'', ''from'', ''full'', ''generated'', ''glob'', ''group'', ''groups'',
     ''having'', ''if'', ''ignore'', ''immediate'', ''in'', ''index'', ''indexed'',
     ''initially'', ''inner'', ''insert'', ''instead'', ''intersect'', ''into'', ''is'',
     ''isnull'', ''join'', ''key'', ''last'', ''left'', ''like'', ''limit'', ''match'',
     ''materialized'', ''natural'', ''no'', ''not'', ''nothing'', ''notnull'', ''null'',
     ''nulls'', ''of'', ''offset'', ''on'', ''or'', ''order'', ''others'', ''outer'', ''over'',
     ''partition'', ''plan'', ''pragma'', ''preceding'', ''primary'', ''query'', ''raise'',
     ''range'', ''recursive'', ''references'', ''regexp'', ''reindex'', ''release'',
     ''rename'', ''replace'', ''restrict'', ''returning'', ''right'', ''rollback'', ''row'',
     ''rows'', ''savepoint'', ''select'', ''set'', ''table'', ''temp'', ''temporary'', ''then'',
     ''ties'', ''to'', ''transaction'', ''trigger'', ''unbounded'', ''union'', ''unique'',
     ''update'', ''using'', ''vacuum'', ''values'', ''view'', ''virtual'', ''when'', ''where'',
     ''window'', ''with'', ''without'']"

definition sql_name :: "string \<Rightarrow> bool" where
  \<comment> \<open>text that SQLite reads as one name when it stands unquoted in a statement\<close>
  "sql_name s =
     (case s of [] \<Rightarrow> False
      | c # cs \<Rightarrow> id_start c \<and> list_all id_char cs \<and> fold_case s \<notin> set sqlite_keywords)"

fun like :: "string \<Rightarrow> string \<Rightarrow> bool" where
  \<comment> \<open>\<open>v LIKE pat\<close> with no \<open>ESCAPE\<close>: \<open>%\<close> stands for any run of characters, \<open>_\<close> for any
      one character, every other character for itself up to ASCII case\<close>
  "like [] s = (s = [])"
| "like (p # ps) s =
     (if p = CHR ''%'' then
        like ps s \<or> (case s of [] \<Rightarrow> False | _ # t \<Rightarrow> like (p # ps) t)
      else
        (case s of [] \<Rightarrow> False
         | c # t \<Rightarrow> (p = CHR ''_'' \<or> ascii_lower p = ascii_lower c) \<and> like ps t))"


type_synonym cell = "string option"

record data_frame =
  columns :: "string list"
  rows :: "cell list list"

record table =
  tname :: string
  tcols :: "string list"
  trows :: "cell list list"

type_synonym store = "table list"

datatype error = DatabaseError | ReadError | WriteError | ValueError | OverflowError

definition find_table :: "store \<Rightarrow> string \<Rightarrow> table option" where
  \<comment> \<open>SQLite looks a table up by name without regard to ASCII case\<close>
  "find_table db n = find (\<lambda>t. fold_case (tname t) = fold_case n) db"

fun find_column :: "string list \<Rightarrow> string \<Rightarrow> nat option" where
  \<comment> \<open>the position of the column a name resolves to, again up to ASCII case\<close>
  "find_column [] n = None"
| "find_column (c # cs) n =
     (if fold_case c = fold_case n then Some 0 else map_option Suc (find_column cs n))"

definition cell_at :: "cell list \<Rightarrow> nat \<Rightarrow> cell" where
  "cell_at r i = (if i < length r then r ! i else None)"

definition like_cell :: "string \<Rightarrow> cell \<Rightarrow> bool" where
  \<comment> \<open>a \<open>WHERE\<close> clause keeps a row only when its test is true; \<open>NULL LIKE pat\<close> is NULL\<close>
  "like_cell pat v = (case v of None \<Rightarrow> False | Some s \<Rightarrow> like pat s)"

subsection \<open>DatabaseManager\<close>

definition get_columns :: "store \<Rightarrow> string \<Rightarrow> error + string list" where
  \<comment> \<open>\<open>PRAGMA table_info({table})\<close>, second field of each answer row; the pragma answers
      with no rows for a table that does not exist\<close>
  "get_columns db tbl =
     (if \<not> sql_name tbl then Inl DatabaseError
      else case find_table db tbl of None \<Rightarrow> Inr [] | Some t \<Rightarrow> Inr (tcols t))"

text \<open>The tokenizer of SQLite, one character at a time.\<close>

datatype token = Ident string | Keyword string | Number string | Param | Star

datatype lex_state = Idle | InIdent string | InNumber string | Slash | InComment | InCommentStar

definition whitespace :: "char \<Rightarrow> bool" where
  \<comment> \<open>space, tab, line feed, form feed, carriage return\<close>
  "whitespace c = (c \<in> set [CHR '' '', CHR 0x09, CHR 0x0A, CHR 0x0C, CHR 0x0D])"

definition word :: "string \<Rightarrow> token" where
  \<comment> \<open>a bare word is a keyword when the keyword table has it, whatever its case\<close>
  "word s = (if fold_case s \<in> set sqlite_keywords then Keyword (fold_case s) else Ident s)"

definition start :: "char \<Rightarrow> (token list \<times> lex_state) option" where
  \<comment> \<open>the first character of a token: the tokens it completes and the state it leaves;
      \<open>None\<close> for a character that begins no token of the fragment\<close>
  "start c =
     (if whitespace c then Some ([], Idle)
      else if c = CHR ''?'' then Some ([Param], Idle)
      else if c = CHR ''*'' then Some ([Star], Idle)
      else if c = CHR ''/'' then Some ([], Slash)
      else if id_start c then Some ([], InIdent [c])
      else if c \<in> set ascii_digits then Some ([], InNumber [c])
      else None)"

fun step :: "lex_state \<Rightarrow> char \<Rightarrow> (token list \<times> lex_state) option" where
  "step Idle c = start c"
| "step (InIdent s) c =
     (if id_char c then Some ([], InIdent (s @ [c]))
      else map_option (\<lambda>(out, st). (word s # out, st)) (start c))"
| "step (InNumber s) c =
     (if c \<in> set ascii_digits then Some ([], InNumber (s @ [c]))
      else if id_char c then None
      else map_option (\<lambda>(out, st). (Number s # out, st)) (start c))"
| "step Slash c = (if c = CHR ''*'' then Some ([], InComment) else None)"
| "step InComment c = Some ([], if c = CHR ''*'' then InCommentStar else InComment)"
| "step InCommentStar c =
     Some ([], if c = CHR ''/'' then Idle else if c = CHR ''*'' then InCommentStar else InComment)"

fun finish :: "lex_state \<Rightarrow> token list option" where
  \<comment> \<open>the end of the text; a block comment left open runs to the end\<close>
  "finish Idle = Some []"
| "finish (InIdent s) = Some [word s]"
| "finish (InNumber s) = Some [Number s]"
| "finish Slash = None"
| "finish InComment = Some []"
| "finish InCommentStar = Some []"

fun tokens :: "lex_state \<Rightarrow> string \<Rightarrow> token list option" where
  "tokens st [] = finish st"
| "tokens st (c # cs) =
     (case step st c of
        None \<Rightarrow> None
      | Some (out, st') \<Rightarrow> map_option (\<lambda>ts. out @ ts) (tokens st' cs))"

text \<open>The statements of the fragment.\<close>

datatype pred = Like string | IsNull string | Lit string

fun split_on :: "token \<Rightarrow> token list \<Rightarrow> token list list" where
  "split_on sep [] = [[]]"
| "split_on sep (t # ts) =
     (if t = sep then [] # split_on sep ts
      else case split_on sep ts of [] \<Rightarrow> [[t]] | g # gs \<Rightarrow> (t # g) # gs)"

definition int_literal :: "string \<Rightarrow> bool" where
  \<comment> \<open>digits that SQLite reads as a 64-bit integer for certain\<close>
  "int_literal n = (length n \<le> 18)"

definition parse_pred :: "token list \<Rightarrow> pred option" where
  "parse_pred ts =
     (case ts of
        Ident c # rest \<Rightarrow>
          if rest = [Keyword ''like'', Param] then Some (Like c)
          else if rest = [Keyword ''is'', Keyword ''null''] then Some (IsNull c)
          else None
      | Number n # rest \<Rightarrow> if rest = [] \<and> int_literal n then Some (Lit n) else None
      | _ \<Rightarrow> None)"

definition parse_limit :: "token list \<Rightarrow> string option option" where
  \<comment> \<open>what follows the condition: nothing, or \<open>LIMIT n\<close>\<close>
  "parse_limit ts =
     (if ts = [] then Some None
      else case tl ts of
        [Number n] \<Rightarrow> if int_literal n then Some (Some n) else None
      | _ \<Rightarrow> None)"

definition parse_select :: "token list \<Rightarrow> (string \<times> pred list \<times> string option) option" where
  \<comment> \<open>\<open>SELECT * FROM t WHERE p OR ... OR p [LIMIT n]\<close>\<close>
  "parse_select ts =
     (if take 3 ts = [Keyword ''select'', Star, Keyword ''from''] then
        (case drop 3 ts of
           Ident t # k # rest \<Rightarrow>
             if k = Keyword ''where'' then
               (case those (map parse_pred
                              (split_on (Keyword ''or'')
                                 (takeWhile (\<lambda>x. x \<noteq> Keyword ''limit'') rest))) of
                  None \<Rightarrow> None
                | Some preds \<Rightarrow>
                    map_option (\<lambda>lim. (t, preds, lim))
                      (parse_limit (dropWhile (\<lambda>x. x \<noteq> Keyword ''limit'') rest)))
             else None
         | _ \<Rightarrow> None)
      else None)"

definition digit_value :: "char \<Rightarrow> nat" where
  "digit_value c =
     (case map_of (zip ascii_digits [0, 1, 2, 3, 4, 5, 6, 7, 8, 9]) c of
        Some v \<Rightarrow> v
      | None \<Rightarrow> 0)"

definition nat_of_digits :: "string \<Rightarrow> nat" where
  "nat_of_digits s = foldl (\<lambda>n c. 10 * n + digit_value c) 0 s"

text \<open>The evaluation of a statement on the store, in SQL's three truth values.\<close>

datatype rpred = RLike nat | RIsNull nat | RLit string

definition resolve :: "string list \<Rightarrow> pred \<Rightarrow> rpred option" where
  \<comment> \<open>every column a statement names must be a column of the table\<close>
  "resolve cols p =
     (case p of
        Like c \<Rightarrow> map_option RLike (find_column cols c)
      | IsNull c \<Rightarrow> map_option RIsNull (find_column cols c)
      | Lit n \<Rightarrow> Some (RLit n))"

definition is_like :: "pred \<Rightarrow> bool" where
  "is_like p = (case p of Like c \<Rightarrow> True | _ \<Rightarrow> False)"

definition eval_pred :: "string \<Rightarrow> cell list \<Rightarrow> rpred \<Rightarrow> bool option" where
  \<comment> \<open>\<open>None\<close> is NULL: \<open>NULL LIKE pat\<close> is NULL, \<open>IS NULL\<close> never is, an integer is true when
      it is not zero\<close>
  "eval_pred pat r p =
     (case p of
        RLike i \<Rightarrow> map_option (like pat) (cell_at r i)
      | RIsNull i \<Rightarrow> Some (cell_at r i = None)
      | RLit n \<Rightarrow> Some (list_ex (\<lambda>c. c \<noteq> CHR ''0'') n))"

definition sql_or :: "bool option \<Rightarrow> bool option \<Rightarrow> bool option" where
  "sql_or a b =
     (if a = Some True \<or> b = Some True then Some True
      else if a = None \<or> b = None then None
      else Some False)"

definition where_true :: "string \<Rightarrow> rpred list \<Rightarrow> cell list \<Rightarrow> bool" where
  \<comment> \<open>a \<open>WHERE\<close> clause keeps a row only when its condition is true\<close>
  "where_true pat ps r = (foldr sql_or (map (eval_pred pat r) ps) (Some False) = Some True)"

definition limit_rows :: "string option \<Rightarrow> 'a list \<Rightarrow> 'a list" where
  "limit_rows lim xs = (case lim of None \<Rightarrow> xs | Some n \<Rightarrow> take (nat_of_digits n) xs)"

definition read_sql_query :: "store \<Rightarrow> string \<Rightarrow> string \<Rightarrow> error + data_frame" where
  \<comment> \<open>\<open>pd.read_sql_query(query, conn, params=(p,))\<close> with the one parameter the program
      passes: the statement must hold exactly one \<open>?\<close>; pandas raises its
      \<open>DatabaseError\<close> for every fault of the execution\<close>
  "read_sql_query db sql p =
     (case tokens Idle sql of
        None \<Rightarrow> Inl DatabaseError
      | Some ts \<Rightarrow>
          (case parse_select ts of
             None \<Rightarrow> Inl DatabaseError
           | Some (tbl, preds, lim) \<Rightarrow>
               (case find_table db tbl of
                  None \<Rightarrow> Inl DatabaseError
                | Some t \<Rightarrow>
                    (case those (map (resolve (tcols t)) preds) of
                       None \<Rightarrow> Inl DatabaseError
                     | Some rps \<Rightarrow>
                         if length (filter is_like preds) \<noteq> 1 then Inl DatabaseError
                         else Inr \<lparr>columns = tcols t,
                                   rows = limit_rows lim (filter (where_true p rps) (trows t))\<rparr>))))"

definition search :: "store \<Rightarrow> string \<Rightarrow> string \<Rightarrow> string \<Rightarrow> error + data_frame" where
  \<comment> \<open>lines 32 to 37: the f-string with its line breaks and indentation, and the one
      parameter \<open>f"%{value}%"\<close>\<close>
  "search db tbl col val =
     read_sql_query db
       (''\<newline>            SELECT * FROM '' @ tbl @
        ''\<newline>            WHERE '' @ col @ '' LIKE ?\<newline>            LIMIT 500\<newline>        '')
       (''%'' @ val @ ''%'')"

definition create_table_from_df ::
  "(cell list list \<Rightarrow> bool) \<Rightarrow> store \<Rightarrow> string \<Rightarrow> data_frame \<Rightarrow> (error \<times> store) + store"
where
  \<comment> \<open>\<open>df.to_sql(table_name, conn, if_exists="replace", index=False)\<close>. pandas first
      quotes the names and raises \<open>ValueError\<close> for an empty one or one with a NUL; it then
      asks \<open>sqlite_master\<close> for a table of exactly this name and drops it, issues
      \<open>CREATE TABLE\<close>, and inserts the rows in one transaction. SQLite refuses the
      \<open>CREATE\<close> for a name beginning \<open>sqlite_\<close>, for a name that another table bears up to
      case, for an empty column list and for two columns equal up to case. \<open>insertable\<close>
      tells whether sqlite3 can bind every value of the rows (it cannot bind an integer
      outside 64 bits, which the text form of a cell does not show); if not, the insertion
      is rolled back and the new table stays empty. A failure returns the error with the
      store as the failed call leaves it.\<close>
  "create_table_from_df insertable db table_name df =
     (if list_ex (\<lambda>n. n = [] \<or> CHR 0x00 \<in> set n) (table_name # columns df)
      then Inl (ValueError, db)
      else
        let kept = filter (\<lambda>t. tname t \<noteq> table_name) db in
        if startswith (fold_case table_name) ''sqlite_''
           \<or> find_table kept table_name \<noteq> None
           \<or> columns df = []
           \<or> \<not> distinct (map fold_case (columns df))
        then Inl (DatabaseError, kept)
        else if \<not> insertable (rows df)
        then Inl (OverflowError, kept @ [\<lparr>tname = table_name, tcols = columns df, trows = []\<rparr>])
        else Inr (kept @ [\<lparr>tname = table_name, tcols = columns df, trows = rows df\<rparr>]))"

subsection \<open>DataImporter\<close>

definition basename :: "string \<Rightarrow> string" where
  \<comment> \<open>\<open>os.path.basename\<close> (posixpath): what follows the last slash\<close>
  "basename p = rev (takeWhile (\<lambda>c. c \<noteq> CHR ''/'') (rev p))"

definition rfind :: "string \<Rightarrow> char \<Rightarrow> int" where
  \<comment> \<open>\<open>s.rfind(c)\<close>: the last position of \<open>c\<close>, or \<open>-1\<close>\<close>
  "rfind s c =
     (if c \<in> set s then int (length s) - 1 - int (length (takeWhile (\<lambda>x. x \<noteq> c) (rev s)))
      else - 1)"

definition splitext :: "string \<Rightarrow> string \<times> string" where
  \<comment> \<open>\<open>os.path.splitext\<close> (posixpath): the extension starts at the last dot of the last
      component, unless only dots stand before it there\<close>
  "splitext p =
     (let sepIndex = rfind p CHR ''/''; dotIndex = rfind p CHR ''.'' in
      if dotIndex > sepIndex
         \<and> list_ex (\<lambda>c. c \<noteq> CHR ''.'')
              (take (nat dotIndex - nat (sepIndex + 1)) (drop (nat (sepIndex + 1)) p))
      then (take (nat dotIndex) p, drop (nat dotIndex) p)
      else (p, []))"

definition derive_table_name :: "string \<Rightarrow> string" where
  \<comment> \<open>lines 58 and 59 of \<open>import_file\<close>\<close>
  "derive_table_name file_path =
     (let table_name = fst (splitext (basename file_path)) in
      replace_chr CHR '' '' CHR ''_'' (replace_chr CHR ''-'' CHR ''_'' table_name))"

definition safe_char :: "char \<Rightarrow> bool" where
  \<comment> \<open>the safe identifier set the specification names: letters, digits, underscore\<close>
  "safe_char c =
     (c \<in> set ascii_upper_letters \<or> c \<in> set ascii_lower_letters \<or> c \<in> set ascii_digits
      \<or> c = CHR ''_'')"

definition import_file ::
  "(string \<Rightarrow> char \<Rightarrow> error + data_frame) \<Rightarrow> (cell list list \<Rightarrow> bool) \<Rightarrow> store \<Rightarrow> string
     \<Rightarrow> (error \<times> store) + (string option \<times> store)"
where
  \<comment> \<open>\<open>read_csv path delimiter\<close> is what \<open>pd.read_csv\<close> makes of the file at \<open>path\<close>;
      \<open>file_path\<close> is the answer of the file dialog, empty when the user cancels. A
      failure returns the error with the store as it then is.\<close>
  "import_file read_csv insertable db file_path =
     (if file_path = [] then Inr (None, db)
      else
        case (if endswith file_path ''.csv'' then read_csv file_path CHR '',''
              else read_csv file_path CHR '';'') of
          Inl e \<Rightarrow> Inl (e, db)
        | Inr df \<Rightarrow>
            (let table_name = derive_table_name file_path in
             case create_table_from_df insertable db table_name df of
               Inl failure \<Rightarrow> Inl failure
             | Inr db' \<Rightarrow> Inr (Some table_name, db')))"

subsection \<open>AppUI\<close>


record app_ui =
  db :: store
  last_df :: data_frame
  selected_table :: string
  selected_column :: string
  search_entry :: string
  tree :: "cell list list"

definition empty_frame :: data_frame where
  \<comment> \<open>\<open>pd.DataFrame()\<close>\<close>
  "empty_frame = \<lparr>columns = [], rows = []\<rparr>"


definition search_data :: "app_ui \<Rightarrow> error option \<times> app_ui" where
  \<comment> \<open>the exception of \<open>search\<close>, if any, leaves the method before the assignment to
      \<open>last_df\<close>; the state is returned in both cases\<close>
  "search_data ui =
     (case search (db ui) (selected_table ui) (selected_column ui) (search_entry ui) of
        Inl e \<Rightarrow> (Some e, ui)
      | Inr df \<Rightarrow> (None, ui\<lparr>last_df := df, tree := rows df\<rparr>))"


subsection \<open>Concrete inputs\<close>

text \<open>
  The table of the specification's scenario (header \<open>id,name,amount\<close>), with a third row
  whose \<open>name\<close> cell is empty in the file, and the store that holds it.
\<close>

definition people :: table where
  "people =
     \<lparr>tname = ''people'', tcols = [''id'', ''Name'', ''amount''],
      trows = [[Some ''1'', Some ''Alice'', Some ''10.5''],
               [Some ''2'', Some ''Bob'', Some ''20.0''],
               [Some ''3'', None, Some ''7.0'']]\<rparr>"

definition demo_db :: store where
  "demo_db = [people]"

definition demo_ui :: app_ui where
  "demo_ui =
     \<lparr>db = demo_db, last_df = empty_frame, selected_table = ''people'',
      selected_column = ''name'', search_entry = ''bo'', tree = []\<rparr>"

text \<open>
  Two readers for one file: \<open>comma_reader\<close> can parse it with the comma only,
  \<open>any_reader\<close> gives the same frame for every delimiter.
\<close>

definition people_frame :: data_frame where
  "people_frame = \<lparr>columns = tcols people, rows = trows people\<rparr>"

definition comma_reader :: "string \<Rightarrow> char \<Rightarrow> error + data_frame" where
  "comma_reader path delimiter = (if delimiter = CHR '','' then Inr people_frame else Inl ReadError)"

definition any_reader :: "string \<Rightarrow> char \<Rightarrow> error + data_frame" where
  "any_reader path delimiter = Inr people_frame"

text \<open>A later state of the same file: other columns, one row.\<close>

definition cities_frame :: data_frame where
  "cities_frame = \<lparr>columns = [''id'', ''city''], rows = [[Some ''9'', Some ''Oslo'']]\<rparr>"

definition later_reader :: "string \<Rightarrow> char \<Rightarrow> error + data_frame" where
  "later_reader path delimiter = Inr cities_frame"

definition binds_all :: "cell list list \<Rightarrow> bool" where
  \<comment> \<open>rows of which sqlite3 can bind every value\<close>
  "binds_all rs = True"




section \<open>Evaluation and helper lemmas\<close>

lemmas char_defs =
  ascii_lower_def ascii_upper_letters_def ascii_lower_letters_def ascii_digits_def
  fold_case_def

lemmas name_defs = sql_name_def id_start_def id_char_def sqlite_keywords_def

lemmas lex_defs = start_def whitespace_def word_def id_start_def id_char_def sqlite_keywords_def


subsection \<open>The statement of \<open>search\<close> for plain names\<close>

lemma map_option_append_Nil [simp]: "map_option ((@) []) x = x"
  by (cases x) simp_all

lemma id_start_start: "id_start c \<Longrightarrow> start c = Some ([], InIdent [c])"
  by (auto simp: start_def whitespace_def id_start_def char_defs)

lemma tokens_ident_run:
  "list_all id_char cs \<Longrightarrow> tokens (InIdent acc) (cs @ rest) = tokens (InIdent (acc @ cs)) rest"
  by (induction cs arbitrary: acc) simp_all

lemma sql_name_shape:
  assumes "sql_name s"
  obtains c cs where "s = c # cs" and "id_start c" and "list_all id_char cs"
    and "word s = Ident s"
  using assms by (cases s) (auto simp: sql_name_def word_def)

lemma tokens_name:
  assumes "sql_name s"
  shows "tokens Idle (s @ rest) = tokens (InIdent s) rest"
proof -
  from assms obtain c cs where s: "s = c # cs" "id_start c" "list_all id_char cs"
    by (rule sql_name_shape)
  then have "tokens Idle (s @ rest) = tokens (InIdent [c]) (cs @ rest)"
    by (simp add: id_start_start)
  also have "\<dots> = tokens (InIdent ([c] @ cs)) rest"
    using s(3) by (rule tokens_ident_run)
  finally show ?thesis using s(1) by simp
qed

lemma tokens_select_from:
  "tokens Idle (''\<newline>            SELECT * FROM '' @ x) =
     map_option (\<lambda>ts. [Keyword ''select'', Star, Keyword ''from''] @ ts) (tokens Idle x)"
  by (cases "tokens Idle x") (simp_all add: lex_defs char_defs)

lemma tokens_where:
  "tokens (InIdent s) (''\<newline>            WHERE '' @ x) =
     map_option (\<lambda>ts. [word s, Keyword ''where''] @ ts) (tokens Idle x)"
  by (cases "tokens Idle x") (simp_all add: lex_defs char_defs)

lemma tokens_like_limit:
  "tokens (InIdent s) '' LIKE ?\<newline>            LIMIT 500\<newline>        '' =
     Some [word s, Keyword ''like'', Param, Keyword ''limit'', Number ''500'']"
  by (simp add: lex_defs char_defs)

lemma tokens_query:
  assumes "sql_name tbl" and "sql_name col"
  shows "tokens Idle
           (''\<newline>            SELECT * FROM '' @ tbl @
            ''\<newline>            WHERE '' @ col @ '' LIKE ?\<newline>            LIMIT 500\<newline>        '')
         = Some [Keyword ''select'', Star, Keyword ''from'', Ident tbl, Keyword ''where'',
                 Ident col, Keyword ''like'', Param, Keyword ''limit'', Number ''500'']"
proof -
  from assms(1) have wt: "word tbl = Ident tbl" by (rule sql_name_shape)
  from assms(2) have wc: "word col = Ident col" by (rule sql_name_shape)
  show ?thesis
    unfolding tokens_select_from tokens_name [OF assms(1)] tokens_where
      tokens_name [OF assms(2)] tokens_like_limit
    by (simp add: wt wc)
qed

lemma parse_query:
  "parse_select [Keyword ''select'', Star, Keyword ''from'', Ident tbl, Keyword ''where'',
                 Ident col, Keyword ''like'', Param, Keyword ''limit'', Number ''500'']
     = Some (tbl, [Like col], Some ''500'')"
  by (simp add: parse_select_def parse_pred_def parse_limit_def int_literal_def)

lemma limit_500 [simp]: "limit_rows (Some ''500'') xs = take 500 xs"
  by (simp add: limit_rows_def nat_of_digits_def digit_value_def ascii_digits_def)

lemma where_true_like [simp]:
  "where_true pat [RLike i] = (\<lambda>r. like_cell pat (cell_at r i))"
proof
  fix r show "where_true pat [RLike i] r = like_cell pat (cell_at r i)"
    by (cases "cell_at r i") (simp_all add: where_true_def eval_pred_def sql_or_def like_cell_def)
qed

lemma search_plain_cases:
  assumes "sql_name tbl" and "sql_name col"
  shows "search d tbl col val =
           (case find_table d tbl of
              None \<Rightarrow> Inl DatabaseError
            | Some t \<Rightarrow>
                (case find_column (tcols t) col of
                   None \<Rightarrow> Inl DatabaseError
                 | Some i \<Rightarrow>
                     Inr \<lparr>columns = tcols t,
                          rows = take 500 (filter (\<lambda>r. like_cell (''%'' @ val @ ''%'') (cell_at r i))
                                            (trows t))\<rparr>))"
  unfolding search_def read_sql_query_def tokens_query [OF assms]
  by (simp add: parse_query resolve_def is_like_def split: option.splits del: like.simps)

lemma search_plain:
  assumes "sql_name tbl" and "sql_name col"
    and "find_table d tbl = Some t" and "find_column (tcols t) col = Some i"
  shows "search d tbl col val =
           Inr \<lparr>columns = tcols t,
                rows = take 500 (filter (\<lambda>r. like_cell (''%'' @ val @ ''%'') (cell_at r i))
                                  (trows t))\<rparr>"
  using search_plain_cases [OF assms(1,2), of d val] assms(3,4) by simp

lemma search_plain_Inr:
  assumes "sql_name tbl" and "sql_name col" and "search d tbl col val = Inr df"
  obtains t i where "find_table d tbl = Some t" and "find_column (tcols t) col = Some i"
    and "df = \<lparr>columns = tcols t,
               rows = take 500 (filter (\<lambda>r. like_cell (''%'' @ val @ ''%'') (cell_at r i))
                                 (trows t))\<rparr>"
  using assms(3) unfolding search_plain_cases [OF assms(1,2)]
  by (auto split: option.splits)

lemma search_error: "search d tbl col val = Inl e \<Longrightarrow> e = DatabaseError"
  by (auto simp: search_def read_sql_query_def split: option.splits if_splits prod.splits)

subsection \<open>\<open>LIKE\<close>, containment, paths\<close>

lemma like_percent [simp]: "like ''%'' s"
  by (induction s) auto

lemma like_skip: "like ps s \<Longrightarrow> like (CHR ''%'' # ps) (a @ s)"
  by (induction a) auto

lemma like_two_percent: "like ''%%'' s"
  using like_skip [OF like_percent, of "[]" s] by (simp del: like.simps)

lemma like_cell_empty_pattern [simp]: "like_cell ''%%'' c = (c \<noteq> None)"
  by (cases c) (simp_all add: like_cell_def like_two_percent del: like.simps)

lemma people_lookup:
  "sql_name ''people''" "sql_name ''Name''" "sql_name ''name''"
  "find_table demo_db ''people'' = Some people"
  "find_column (tcols people) ''Name'' = Some 1"
  "find_column (tcols people) ''name'' = Some 1"
  by (simp_all add: demo_db_def people_def find_table_def name_defs char_defs)









lemma basename_split: "\<exists>dir. p = dir @ basename p \<and> CHR ''/'' \<notin> set (basename p)"
proof -
  let ?tail = "takeWhile (\<lambda>c. c \<noteq> CHR ''/'') (rev p)"
  have "rev p = ?tail @ dropWhile (\<lambda>c. c \<noteq> CHR ''/'') (rev p)" by simp
  then have "p = rev (dropWhile (\<lambda>c. c \<noteq> CHR ''/'') (rev p)) @ basename p"
    unfolding basename_def by (metis rev_append rev_rev_ident)
  moreover have "CHR ''/'' \<notin> set (basename p)"
    unfolding basename_def by (auto dest: set_takeWhileD)
  ultimately show ?thesis by blast
qed

lemma replace_twice:
  "replace_chr CHR '' '' CHR ''_'' (replace_chr CHR ''-'' CHR ''_'' s) =
     map (\<lambda>c. if c = CHR ''-'' \<or> c = CHR '' '' then CHR ''_'' else c) s"
  by (induction s) (simp_all add: replace_chr_def)

lemmas path_defs = derive_table_name_def splitext_def basename_def rfind_def replace_chr_def

subsection \<open>The store after \<open>to_sql\<close>\<close>

lemma find_append_None:
  "find P xs = None \<Longrightarrow> find P (xs @ ys) = find P ys"
  by (induction xs) (auto split: if_splits)

lemma create_table_Inr:
  assumes "create_table_from_df ins d n df = Inr d'"
  shows "d' = filter (\<lambda>t. tname t \<noteq> n) d @ [\<lparr>tname = n, tcols = columns df, trows = rows df\<rparr>]"
    and "find_table (filter (\<lambda>t. tname t \<noteq> n) d) n = None"
  using assms by (auto simp: create_table_from_df_def Let_def split: if_splits)

lemma create_table_lookup:
  assumes "create_table_from_df ins d n df = Inr d'"
  shows "find_table d' n = Some \<lparr>tname = n, tcols = columns df, trows = rows df\<rparr>"
proof -
  note c = create_table_Inr [OF assms]
  from c(2) have "find_table d' n = find_table [\<lparr>tname = n, tcols = columns df, trows = rows df\<rparr>] n"
    unfolding c(1) find_table_def by (rule find_append_None)
  then show ?thesis by (simp add: find_table_def)
qed

lemma create_table_only_one:
  assumes "create_table_from_df ins d n df = Inr d'"
  shows "filter (\<lambda>t. fold_case (tname t) = fold_case n) d'
           = [\<lparr>tname = n, tcols = columns df, trows = rows df\<rparr>]"
proof -
  note c = create_table_Inr [OF assms]
  from c(2) have "filter (\<lambda>t. fold_case (tname t) = fold_case n) (filter (\<lambda>t. tname t \<noteq> n) d) = []"
    unfolding find_table_def find_None_iff filter_empty_conv by blast
  then show ?thesis unfolding c(1) by simp
qed

lemma import_file_nonempty:
  assumes "p \<noteq> []"
  shows "import_file rd ins d p =
     (case rd p (if endswith p ''.csv'' then CHR '','' else CHR '';'') of
        Inl e \<Rightarrow> Inl (e, d)
      | Inr df \<Rightarrow>
          (case create_table_from_df ins d (derive_table_name p) df of
             Inl failure \<Rightarrow> Inl failure
           | Inr d' \<Rightarrow> Inr (Some (derive_table_name p), d')))"
  using assms by (auto simp: import_file_def Let_def split: sum.splits)

lemma import_file_Inr:
  assumes "import_file rd ins d p = Inr (Some n, d')"
  obtains df where "p \<noteq> []" and "n = derive_table_name p"
    and "rd p (if endswith p ''.csv'' then CHR '','' else CHR '';'') = Inr df"
    and "create_table_from_df ins d n df = Inr d'"
  using assms
  by (auto simp: import_file_def Let_def split: if_splits sum.splits)

lemmas import_defs = import_file_def Let_def create_table_from_df_def find_table_def
  startswith_def endswith_def

section \<open>The claims\<close>

text \<open>
  C1, as the claim states it, fails: \<open>search\<close> does not compare the column with the
  column list; it writes the name into the statement and SQLite resolves it without
  regard to case. The table \<open>people\<close> lists \<open>id\<close>, \<open>Name\<close>, \<open>amount\<close>; the search of
  \<open>name\<close> succeeds and replaces the held frame.
\<close>

theorem unknown_column_counterexample:
  "get_columns demo_db ''people'' = Inr [''id'', ''Name'', ''amount'']
   \<and> ''name'' \<notin> set [''id'', ''Name'', ''amount'']
   \<and> last_df demo_ui = empty_frame
   \<and> search_data demo_ui =
       (None,
        demo_ui\<lparr>last_df := \<lparr>columns = [''id'', ''Name'', ''amount''],
                             rows = [[Some ''2'', Some ''Bob'', Some ''20.0'']]\<rparr>,
                tree := [[Some ''2'', Some ''Bob'', Some ''20.0'']]\<rparr>)"
proof -
  have "get_columns demo_db ''people'' = Inr [''id'', ''Name'', ''amount'']"
    by (simp add: get_columns_def people_lookup) (simp add: people_def)
  moreover have "search demo_db ''people'' ''name'' ''bo'' =
      Inr \<lparr>columns = [''id'', ''Name'', ''amount''],
           rows = [[Some ''2'', Some ''Bob'', Some ''20.0'']]\<rparr>"
    by (simp add: search_plain [OF people_lookup(1,3,4,6)] people_def cell_at_def like_cell_def
        char_defs)
  ultimately show ?thesis
    by (simp add: search_data_def demo_ui_def)
qed

text \<open>
  C1, amended. \<open>search\<close> performs no check of the column against the column list: the
  name goes into the query as it is and SQLite resolves it. When the query is refused,
  \<open>search_data\<close> fails with the \<open>DatabaseError\<close> of the library (the program has no error
  kind of its own for an unknown column), and the held frame, like the rest of the
  window's state, is as it was before the call.
\<close>

theorem failed_search_keeps_last_result:
  assumes "search (db ui) (selected_table ui) (selected_column ui) (search_entry ui) = Inl e"
  shows "search_data ui = (Some DatabaseError, ui) \<and> e = DatabaseError"
proof -
  from assms have "e = DatabaseError" by (rule search_error)
  with assms show ?thesis by (simp add: search_data_def)
qed

theorem failed_search_keeps_last_result_witness:
  "search (db (demo_ui\<lparr>last_df := people_frame, selected_column := ''zzz''\<rparr>))
          (selected_table (demo_ui\<lparr>last_df := people_frame, selected_column := ''zzz''\<rparr>))
          (selected_column (demo_ui\<lparr>last_df := people_frame, selected_column := ''zzz''\<rparr>))
          (search_entry (demo_ui\<lparr>last_df := people_frame, selected_column := ''zzz''\<rparr>))
     = Inl DatabaseError
   \<and> last_df (snd (search_data (demo_ui\<lparr>last_df := people_frame, selected_column := ''zzz''\<rparr>)))
       = people_frame"
proof -
  let ?ui = "demo_ui\<lparr>last_df := people_frame, selected_column := ''zzz''\<rparr>"
  have z: "sql_name ''zzz''" by (simp add: name_defs char_defs)
  have "find_column (tcols people) ''zzz'' = None" by (simp add: people_def char_defs)
  then have "search demo_db ''people'' ''zzz'' ''bo'' = Inl DatabaseError"
    by (simp add: search_plain_cases [OF people_lookup(1) z] people_lookup(4))
  then have h: "search (db ?ui) (selected_table ?ui) (selected_column ?ui) (search_entry ?ui)
             = Inl DatabaseError"
    by (simp add: demo_ui_def)
  from failed_search_keeps_last_result [OF h] h show ?thesis by simp
qed







text \<open>
  C4, as the claim states it, fails: with the empty pattern \<open>search\<close> leaves out the rows
  whose cell in the column is NULL. The table \<open>people\<close> has three rows and the search of
  its column \<open>Name\<close> returns two.
\<close>

theorem empty_pattern_counterexample:
  "search demo_db ''people'' ''Name'' [] =
     Inr \<lparr>columns = [''id'', ''Name'', ''amount''],
          rows = [[Some ''1'', Some ''Alice'', Some ''10.5''],
                  [Some ''2'', Some ''Bob'', Some ''20.0'']]\<rparr>
   \<and> min (length (trows people)) 500 = 3"
  by (simp add: search_plain [OF people_lookup(1,2,4,5)] people_def cell_at_def)

text \<open>
  C4, amended. For a table and a column whose names SQLite reads as plain names, \<open>search\<close>
  with the empty pattern returns a frame of \<open>min n 500\<close> rows, \<open>n\<close> being the number of rows
  of the table whose cell in that column is not NULL; when no cell of the column is NULL
  this is \<open>min row_count 500\<close>.
\<close>

theorem search_empty_pattern:
  assumes "sql_name tbl" and "sql_name col"
    and "find_table d tbl = Some t" and "find_column (tcols t) col = Some i"
  shows "\<exists>df. search d tbl col [] = Inr df
           \<and> length (rows df) = min (length (filter (\<lambda>r. cell_at r i \<noteq> None) (trows t))) 500
           \<and> ((\<forall>r \<in> set (trows t). cell_at r i \<noteq> None)
                \<longrightarrow> length (rows df) = min (length (trows t)) 500)"
proof -
  let ?df = "\<lparr>columns = tcols t,
               rows = take 500 (filter (\<lambda>r. cell_at r i \<noteq> None) (trows t))\<rparr>"
  have "search d tbl col [] = Inr ?df"
    by (simp add: search_plain [OF assms])
  moreover have "length (rows ?df) = min (length (filter (\<lambda>r. cell_at r i \<noteq> None) (trows t))) 500"
    by simp
  moreover have "(\<forall>r \<in> set (trows t). cell_at r i \<noteq> None)
                   \<longrightarrow> length (rows ?df) = min (length (trows t)) 500"
    by simp
  ultimately show ?thesis by blast
qed

theorem search_empty_pattern_witness:
  "sql_name ''people'' \<and> sql_name ''id''
   \<and> find_table demo_db ''people'' = Some people \<and> find_column (tcols people) ''id'' = Some 0
   \<and> (\<exists>df. search demo_db ''people'' ''id'' [] = Inr df \<and> length (rows df) = 3)"
proof -
  have h: "sql_name ''people''" "sql_name ''id''"
    "find_table demo_db ''people'' = Some people" "find_column (tcols people) ''id'' = Some 0"
    by (simp_all add: demo_db_def people_def find_table_def name_defs char_defs)
  from search_empty_pattern [OF h] obtain df where
    "search demo_db ''people'' ''id'' [] = Inr df"
    "length (rows df) = min (length (filter (\<lambda>r. cell_at r 0 \<noteq> None) (trows people))) 500"
    by blast
  moreover have "min (length (filter (\<lambda>r. cell_at r 0 \<noteq> None) (trows people))) 500 = 3"
    by (simp add: people_def cell_at_def)
  ultimately show ?thesis using h by auto
qed







text \<open>
  C9. For every path the dialog returns, \<open>import_file\<close> is the storing of one parse of
  the file: the parse with the comma when the path ends in \<open>.csv\<close>, the parse with the
  semicolon for every other path. When that parse fails the import fails with its error
  and the store is as before; when it gives a frame that the store takes, the table of
  the derived name holds that frame. The choice looks at the path alone, never at the
  content.
\<close>

theorem delimiter_by_extension:
  assumes "p \<noteq> []"
  shows "import_file rd ins d p =
           (case rd p (if endswith p ''.csv'' then CHR '','' else CHR '';'') of
              Inl e \<Rightarrow> Inl (e, d)
            | Inr df \<Rightarrow>
                (case create_table_from_df ins d (derive_table_name p) df of
                   Inl failure \<Rightarrow> Inl failure
                 | Inr d' \<Rightarrow> Inr (Some (derive_table_name p), d')))
       \<and> (\<forall>df d'. rd p (if endswith p ''.csv'' then CHR '','' else CHR '';'') = Inr df
              \<and> import_file rd ins d p = Inr (Some (derive_table_name p), d')
            \<longrightarrow> find_table d' (derive_table_name p)
                  = Some \<lparr>tname = derive_table_name p, tcols = columns df, trows = rows df\<rparr>)"
proof -
  note eq = import_file_nonempty [OF assms, of rd ins d]
  have "find_table d' (derive_table_name p)
          = Some \<lparr>tname = derive_table_name p, tcols = columns df, trows = rows df\<rparr>"
    if "rd p (if endswith p ''.csv'' then CHR '','' else CHR '';'') = Inr df"
      and "import_file rd ins d p = Inr (Some (derive_table_name p), d')" for df d'
  proof -
    from that have "create_table_from_df ins d (derive_table_name p) df = Inr d'"
      unfolding eq by (simp split: sum.splits)
    then show ?thesis by (rule create_table_lookup)
  qed
  with eq show ?thesis by blast
qed

theorem delimiter_by_extension_witness:
  "''data.csv'' \<noteq> [] \<and> ''data.txt'' \<noteq> []
   \<and> import_file comma_reader binds_all [] ''data.csv'' =
       Inr (Some ''data'', [\<lparr>tname = ''data'', tcols = tcols people, trows = trows people\<rparr>])
   \<and> import_file comma_reader binds_all [] ''data.txt'' = Inl (ReadError, [])"
proof -
  have c: "create_table_from_df binds_all [] ''data'' people_frame =
             Inr [\<lparr>tname = ''data'', tcols = tcols people, trows = trows people\<rparr>]"
    by (simp add: create_table_from_df_def Let_def binds_all_def people_frame_def find_table_def
        startswith_def)
       (simp add: people_def char_defs)
  have n: "derive_table_name ''data.csv'' = ''data''" "derive_table_name ''data.txt'' = ''data''"
    by (simp_all add: path_defs)
  have p: "''data.csv'' \<noteq> []" "''data.txt'' \<noteq> []" by simp_all
  from delimiter_by_extension [OF p(1), of comma_reader binds_all "[]"] c n
  have "import_file comma_reader binds_all [] ''data.csv'' =
       Inr (Some ''data'', [\<lparr>tname = ''data'', tcols = tcols people, trows = trows people\<rparr>])"
    by (simp add: comma_reader_def endswith_def)
  moreover from delimiter_by_extension [OF p(2), of comma_reader binds_all "[]"]
  have "import_file comma_reader binds_all [] ''data.txt'' = Inl (ReadError, [])"
    by (simp add: comma_reader_def endswith_def)
  ultimately show ?thesis by simp
qed

text \<open>
  C5, as the claim states it, fails: only the hyphen and the space are replaced. The
  name derived from \<open>report (1).csv\<close> keeps its parentheses, which are outside the safe
  set.
\<close>

theorem safe_name_counterexample:
  "derive_table_name ''report (1).csv'' = ''report_(1)''
   \<and> \<not> list_all safe_char (derive_table_name ''report (1).csv'')"
  by (simp add: path_defs safe_char_def char_defs)

text \<open>
  C5, amended. The derived table name is the base name of the path without its
  extension, with every hyphen and every space replaced by an underscore and every other
  character left as it is; it thus contains neither hyphen nor space, and
  \<open>sales report-2024.csv\<close> gives \<open>sales_report_2024\<close>.
\<close>

theorem derive_table_name_replaces_hyphen_and_space:
  "derive_table_name p =
     map (\<lambda>c. if c = CHR ''-'' \<or> c = CHR '' '' then CHR ''_'' else c)
       (fst (splitext (basename p)))
   \<and> CHR ''-'' \<notin> set (derive_table_name p)
   \<and> CHR '' '' \<notin> set (derive_table_name p)
   \<and> derive_table_name ''sales report-2024.csv'' = ''sales_report_2024''"
proof -
  have eq: "derive_table_name p =
     map (\<lambda>c. if c = CHR ''-'' \<or> c = CHR '' '' then CHR ''_'' else c)
       (fst (splitext (basename p)))"
    by (simp add: derive_table_name_def replace_twice)
  have "CHR ''-'' \<notin> set (derive_table_name p)" "CHR '' '' \<notin> set (derive_table_name p)"
    unfolding eq by auto
  moreover have "derive_table_name ''sales report-2024.csv'' = ''sales_report_2024''"
    by (simp add: path_defs)
  ultimately show ?thesis using eq by blast
qed

text \<open>
  C6. When a path is loaded and then loaded again, both loads succeeding, the second
  load bears the same table name, and the store then holds exactly one table of that
  name: its columns and its rows are those of the frame the second load parsed, with
  nothing of the first.
\<close>

theorem reload_replaces_table:
  assumes "import_file rd1 ins1 d p = Inr (Some n, d1)"
    and "import_file rd2 ins2 d1 p = Inr (Some n2, d2)"
  shows "n2 = n
       \<and> (\<exists>df2. rd2 p (if endswith p ''.csv'' then CHR '','' else CHR '';'') = Inr df2
            \<and> filter (\<lambda>t. fold_case (tname t) = fold_case n) d2
                = [\<lparr>tname = n, tcols = columns df2, trows = rows df2\<rparr>]
            \<and> find_table d2 n = Some \<lparr>tname = n, tcols = columns df2, trows = rows df2\<rparr>)"
proof -
  from assms(1) have n: "n = derive_table_name p" by (elim import_file_Inr)
  from assms(2) obtain df2 where n2: "n2 = derive_table_name p"
    and rd: "rd2 p (if endswith p ''.csv'' then CHR '','' else CHR '';'') = Inr df2"
    and second: "create_table_from_df ins2 d1 n2 df2 = Inr d2"
    by (elim import_file_Inr)
  from n n2 have same: "n2 = n" by simp
  from create_table_only_one [OF second] create_table_lookup [OF second] rd same
  show ?thesis by blast
qed

theorem reload_replaces_table_witness:
  "import_file any_reader binds_all [] ''people.csv'' = Inr (Some ''people'', [people])
   \<and> import_file later_reader binds_all [people] ''people.csv''
       = Inr (Some ''people'',
              [\<lparr>tname = ''people'', tcols = [''id'', ''city''],
                trows = [[Some ''9'', Some ''Oslo'']]\<rparr>])
   \<and> find_table [\<lparr>tname = ''people'', tcols = [''id'', ''city''],
                   trows = [[Some ''9'', Some ''Oslo'']]\<rparr>] ''people''
       = Some \<lparr>tname = ''people'', tcols = [''id'', ''city''],
               trows = [[Some ''9'', Some ''Oslo'']]\<rparr>"
proof -
  have h1: "import_file any_reader binds_all [] ''people.csv'' = Inr (Some ''people'', [people])"
    by (simp add: import_defs any_reader_def binds_all_def people_frame_def path_defs)
       (simp add: people_def char_defs)
  have h2: "import_file later_reader binds_all [people] ''people.csv''
       = Inr (Some ''people'',
              [\<lparr>tname = ''people'', tcols = [''id'', ''city''],
                trows = [[Some ''9'', Some ''Oslo'']]\<rparr>])"
    by (simp add: import_defs later_reader_def binds_all_def cities_frame_def path_defs
        people_def char_defs)
  from reload_replaces_table [OF h1 h2] obtain df2 where
    "later_reader ''people.csv'' (if endswith ''people.csv'' ''.csv'' then CHR '','' else CHR '';'')
       = Inr df2"
    and found: "find_table [\<lparr>tname = ''people'', tcols = [''id'', ''city''],
                   trows = [[Some ''9'', Some ''Oslo'']]\<rparr>] ''people''
       = Some \<lparr>tname = ''people'', tcols = columns df2, trows = rows df2\<rparr>"
    by blast
  then have "df2 = cities_frame" by (simp add: later_reader_def)
  with found have "find_table [\<lparr>tname = ''people'', tcols = [''id'', ''city''],
                   trows = [[Some ''9'', Some ''Oslo'']]\<rparr>] ''people''
       = Some \<lparr>tname = ''people'', tcols = [''id'', ''city''],
               trows = [[Some ''9'', Some ''Oslo'']]\<rparr>"
    by (simp add: cities_frame_def)
  with h1 h2 show ?thesis by simp
qed

text \<open>
  C8, as the claim states it, fails: \<open>get_columns\<close> writes the table name into the
  \<open>PRAGMA\<close> without quotes, and a derived name need not be one that SQLite reads as a
  name. The load of \<open>2024-sales.csv\<close> creates the table \<open>2024_sales\<close>, and the listing of
  its columns is refused.
\<close>

theorem list_columns_counterexample:
  "import_file any_reader binds_all [] ''2024-sales.csv'' =
     Inr (Some ''2024_sales'',
          [\<lparr>tname = ''2024_sales'', tcols = [''id'', ''Name'', ''amount''],
            trows = trows people\<rparr>])
   \<and> get_columns [\<lparr>tname = ''2024_sales'', tcols = [''id'', ''Name'', ''amount''],
                    trows = trows people\<rparr>] ''2024_sales''
       = Inl DatabaseError"
proof -
  have "import_file any_reader binds_all [] ''2024-sales.csv'' =
     Inr (Some ''2024_sales'',
          [\<lparr>tname = ''2024_sales'', tcols = [''id'', ''Name'', ''amount''],
            trows = trows people\<rparr>])"
    by (simp add: import_defs any_reader_def binds_all_def people_frame_def path_defs)
       (simp add: people_def char_defs)
  moreover have "\<not> sql_name ''2024_sales''"
    by (simp add: name_defs char_defs)
  ultimately show ?thesis by (simp add: get_columns_def)
qed

text \<open>
  C8, amended. When a load succeeds and the derived table name is one that SQLite reads
  as a plain unquoted name, \<open>get_columns\<close> on that name returns exactly the column names
  of the frame that pandas parsed from the file, in the frame's order.
\<close>

theorem list_columns_after_load:
  assumes "import_file rd ins d p = Inr (Some n, d')" and "sql_name n"
  shows "\<exists>df. rd p (if endswith p ''.csv'' then CHR '','' else CHR '';'') = Inr df
           \<and> get_columns d' n = Inr (columns df)"
proof -
  from assms(1) obtain df where
    rd: "rd p (if endswith p ''.csv'' then CHR '','' else CHR '';'') = Inr df"
    and created: "create_table_from_df ins d n df = Inr d'"
    by (elim import_file_Inr)
  from create_table_lookup [OF created] assms(2)
  have "get_columns d' n = Inr (columns df)" by (simp add: get_columns_def)
  with rd show ?thesis by blast
qed

theorem list_columns_after_load_witness:
  "import_file any_reader binds_all [] ''people.csv'' = Inr (Some ''people'', [people])
   \<and> sql_name ''people''
   \<and> get_columns [people] ''people'' = Inr [''id'', ''Name'', ''amount'']"
proof -
  have h1: "import_file any_reader binds_all [] ''people.csv'' = Inr (Some ''people'', [people])"
    by (simp add: import_defs any_reader_def binds_all_def people_frame_def path_defs)
       (simp add: people_def char_defs)
  from list_columns_after_load [OF h1 people_lookup(1)]
  have "get_columns [people] ''people'' = Inr (columns people_frame)"
    by (simp add: any_reader_def)
  then have "get_columns [people] ''people'' = Inr [''id'', ''Name'', ''amount'']"
    by (simp add: people_frame_def people_def)
  with h1 people_lookup(1) show ?thesis by simp
qed


end
